theory Spec2Isabelle
  imports Main "HOL-Library.Word" "HOL-Library.AList"
begin

unbundle bit_operations_syntax

section \<open>The USB words of muFORTH on OSX (usb-darwin.c)\<close>

text \<open>
  Every function of usb-darwin.c is a Forth word: it takes its arguments from the data
  stack of the interpreter, calls into CoreFoundation and IOKit, and leaves its results
  on the data stack or aborts through \<open>abort_zmsg\<close>. The embedding keeps the three
  things a word can be observed by: the stack pointer, the stack memory, and the
  sequence of calls it makes into the native layer.
\<close>

subsection \<open>Native integer types\<close>

type_synonym IOReturn = "32 word"
type_synonym io_service_t = "32 word"
type_synonym SInt32 = "32 word"
type_synonym UInt32 = "32 word"
type_synonym UInt16 = "16 word"
type_synonym UInt8 = "8 word"

definition kIOReturnSuccess :: IOReturn where
  "kIOReturnSuccess = 0"

text \<open>
  The names that IOKit's headers give to the matching keys, the service classes and the
  plug-in and interface identifiers. They are distinct constants; the code only passes
  them on.
\<close>

definition kIOUSBDeviceClassName :: string where
  "kIOUSBDeviceClassName = ''IOUSBDevice''"

definition kIOUSBInterfaceClassName :: string where
  "kIOUSBInterfaceClassName = ''IOUSBInterface''"

definition kUSBVendorID :: string where
  "kUSBVendorID = ''idVendor''"

definition kUSBProductID :: string where
  "kUSBProductID = ''idProduct''"

definition kUSBInterfaceNumber :: string where
  "kUSBInterfaceNumber = ''bInterfaceNumber''"

definition kUSBConfigurationValue :: string where
  "kUSBConfigurationValue = ''bConfigurationValue''"

datatype uuid =
  kIOUSBDeviceUserClientTypeID
| kIOUSBInterfaceUserClientTypeID
| kIOCFPlugInInterfaceID
| kIOUSBDeviceInterfaceID
| kIOUSBInterfaceInterfaceID190

subsection \<open>Matching dictionaries\<close>

text \<open>
  A \<open>CFMutableDictionaryRef\<close> is modelled by the dictionary it refers to: an association
  list from keys to values. \<open>CFDictionarySetValue\<close> replaces the value of a key that is
  present and adds the key otherwise, which is \<open>AList.update\<close>.
\<close>

datatype CFValue = CFNumber SInt32 | CFString string

type_synonym CFDictionary = "(string \<times> CFValue) list"

definition add_number_match :: "CFDictionary \<Rightarrow> string \<Rightarrow> SInt32 \<Rightarrow> CFDictionary" where
  "add_number_match matching keyRef val = AList.update keyRef (CFNumber val) matching"

subsection \<open>Transfer descriptors\<close>

text \<open>
  \<open>IOUSBDevRequest\<close> and \<open>IOUSBDevRequestTO\<close>, with the fields the caller fills in. The
  field \<open>wLenDone\<close> is written by the native layer and is part of its answer.
\<close>

record 'c IOUSBDevRequest =
  bmRequestType :: UInt8
  bRequest :: UInt8
  wValue :: UInt16
  wIndex :: UInt16
  wLength :: UInt16
  pData :: 'c

record 'c IOUSBDevRequestTO = "'c IOUSBDevRequest" +
  noDataTimeout :: UInt32
  completionTimeout :: UInt32

subsection \<open>Calls into the native layer\<close>

text \<open>
  Each call the code makes is recorded with the arguments it passes. Pointers (plug-in,
  device and interface references, buffers) are cells: the code stores them on the stack
  through a cast to \<open>addr\<close> and reads them back from there; \<open>NULL\<close> is 0. The data
  that a transfer moves through a buffer lies in the memory of the interpreter, outside
  the data stack, and is not modelled.
\<close>

datatype 'c native_call =
  Call_IOServiceMatching string
| Call_IOServiceGetMatchingService CFDictionary
| Call_IOCreatePlugInInterfaceForService io_service_t uuid uuid
| Call_QueryInterface 'c uuid
| Call_Release 'c
| Call_USBInterfaceOpen 'c
| Call_USBInterfaceClose 'c
| Call_DeviceRequest 'c "'c IOUSBDevRequest"
| Call_ControlRequestTO 'c UInt8 "'c IOUSBDevRequestTO"
| Call_GetPipeProperties 'c UInt8
| Call_ReadPipeTO 'c UInt8 'c UInt32 UInt32 UInt32
| Call_WritePipeTO 'c UInt8 'c UInt32 UInt32 UInt32

text \<open>
  What the native layer answers. The code cannot see how the answers come about, so they
  are parameters of every word: a status of type \<open>IOReturn\<close>, together with the values
  the call writes through its out-parameters.
\<close>

record 'c native =
  IOServiceMatching :: "string \<Rightarrow> CFDictionary option"
  IOServiceGetMatchingService :: "CFDictionary \<Rightarrow> io_service_t"
  IOCreatePlugInInterfaceForService :: "io_service_t \<Rightarrow> uuid \<Rightarrow> uuid \<Rightarrow> IOReturn \<times> 'c"
  QueryInterface :: "'c \<Rightarrow> uuid \<Rightarrow> IOReturn \<times> 'c"
  USBInterfaceOpen :: "'c \<Rightarrow> IOReturn"
  USBInterfaceClose :: "'c \<Rightarrow> IOReturn"
  DeviceRequest :: "'c \<Rightarrow> 'c IOUSBDevRequest \<Rightarrow> IOReturn"
  ControlRequestTO :: "'c \<Rightarrow> UInt8 \<Rightarrow> 'c IOUSBDevRequestTO \<Rightarrow> IOReturn \<times> UInt32"
  GetPipeProperties :: "'c \<Rightarrow> UInt8 \<Rightarrow> IOReturn \<times> UInt8 \<times> UInt8 \<times> UInt8 \<times> UInt16 \<times> UInt8"
  ReadPipeTO :: "'c \<Rightarrow> UInt8 \<Rightarrow> 'c \<Rightarrow> UInt32 \<Rightarrow> UInt32 \<Rightarrow> UInt32 \<Rightarrow> IOReturn \<times> UInt32"
  WritePipeTO :: "'c \<Rightarrow> UInt8 \<Rightarrow> 'c \<Rightarrow> UInt32 \<Rightarrow> UInt32 \<Rightarrow> UInt32 \<Rightarrow> IOReturn"

subsection \<open>The data stack\<close>

text \<open>
  Modelled from the spec: the stack macros of muforth.h (\<open>SP\<close>, \<open>TOP\<close>, \<open>ST1\<close>, \<open>ST2\<close>,
  \<open>ST3\<close>, \<open>DROP\<close>), which are not part of the sources at hand. The stack is an array of
  cells and \<open>SP\<close> points at its top element; the stack grows towards lower addresses, so
  \<open>SP[i]\<close> is the element \<open>i\<close> below the top, \<open>DROP(n)\<close> adds \<open>n\<close> to \<open>SP\<close> and a negative
  \<open>n\<close> makes room for new elements. The depth of the stack falls by \<open>n\<close> when \<open>SP\<close>
  rises by \<open>n\<close>.
\<close>

record 'c machine =
  sp :: int
  stack :: "int \<Rightarrow> 'c"
  calls :: "(int \<times> 'c native_call) list"

definition SP :: "'c machine \<Rightarrow> int \<Rightarrow> 'c" where
  "SP s i = stack s (sp s + i)"

definition TOP :: "'c machine \<Rightarrow> 'c" where
  "TOP s = SP s 0"

definition ST1 :: "'c machine \<Rightarrow> 'c" where
  "ST1 s = SP s 1"

definition ST2 :: "'c machine \<Rightarrow> 'c" where
  "ST2 s = SP s 2"

definition ST3 :: "'c machine \<Rightarrow> 'c" where
  "ST3 s = SP s 3"

definition set_SP :: "int \<Rightarrow> 'c \<Rightarrow> 'c machine \<Rightarrow> 'c machine" where
  "set_SP i v s = s\<lparr>stack := (stack s)(sp s + i := v)\<rparr>"

definition DROP :: "int \<Rightarrow> 'c machine \<Rightarrow> 'c machine" where
  "DROP n s = s\<lparr>sp := sp s + n\<rparr>"

text \<open>
  The log of native calls: a call is appended together with the value that \<open>SP\<close> has
  when the call is made, which tells whether a word moves the stack pointer before or
  after it calls out.
\<close>

definition native_call :: "'c native_call \<Rightarrow> 'c machine \<Rightarrow> 'c machine" where
  "native_call c s = s\<lparr>calls := calls s @ [(sp s, c)]\<rparr>"

text \<open>
  Modelled from the spec: \<open>abort_zmsg\<close> of the interpreter, which is not part of the
  sources at hand. Every use is \<open>return abort_zmsg(...)\<close>, so the word does nothing
  after it; the outcome keeps the message and the machine as the word left it.
\<close>

datatype 'c outcome = Returned "'c machine" | Aborted string "'c machine"

definition abort_zmsg :: "string \<Rightarrow> 'c machine \<Rightarrow> 'c outcome" where
  "abort_zmsg zmsg s = Aborted zmsg s"

fun machine_of :: "'c outcome \<Rightarrow> 'c machine" where
  "machine_of (Returned s) = s"
| "machine_of (Aborted zmsg s) = s"

fun aborted :: "'c outcome \<Rightarrow> bool" where
  "aborted (Returned s) = False"
| "aborted (Aborted zmsg s) = True"

text \<open>The calls that a word has added to the log, given the machine it started from.\<close>

definition calls_made :: "'c machine \<Rightarrow> 'c outcome \<Rightarrow> (int \<times> 'c native_call) list" where
  "calls_made s r = drop (length (calls s)) (calls (machine_of r))"

text \<open>The criteria of the service lookups in a sequence of native calls.\<close>

fun lookup_criteria :: "'c native_call list \<Rightarrow> CFDictionary list" where
  "lookup_criteria [] = []"
| "lookup_criteria (Call_IOServiceGetMatchingService matching # cs) =
     matching # lookup_criteria cs"
| "lookup_criteria (c # cs) = lookup_criteria cs"

subsection \<open>The interface-level words\<close>

text \<open>
  A cell that the code assigns to a narrower native integer (\<open>SInt32\<close>, \<open>UInt32\<close>,
  \<open>UInt16\<close>, \<open>UInt8\<close>) keeps its low bits; an unsigned native integer assigned to a cell
  keeps its value. Both are \<open>ucast\<close>, a cell being at least 32 bits wide.
\<close>

text \<open>\<open>usb-find-device (vendor-id product-id -- dev -1 | 0)\<close>, lines 124 to 189.\<close>

definition mu_usb_find_device :: "'a::len word native \<Rightarrow> 'a word machine \<Rightarrow> 'a word outcome" where
  "mu_usb_find_device N s0 =
    (let s1 = native_call (Call_IOServiceMatching kIOUSBInterfaceClassName) s0 in
     case IOServiceMatching N kIOUSBInterfaceClassName of
       None \<Rightarrow> abort_zmsg ''IOServiceMatching returned NULL'' s1
     | Some m0 \<Rightarrow>
        (let m1 = add_number_match m0 kUSBVendorID (ucast (ST1 s1));
             m2 = add_number_match m1 kUSBProductID (ucast (TOP s1));
             m3 = add_number_match m2 kUSBInterfaceNumber 0;
             matching = add_number_match m3 kUSBConfigurationValue 1;
             s2 = native_call (Call_IOServiceGetMatchingService matching) s1;
             ioService = IOServiceGetMatchingService N matching
         in if ioService = 0 then Returned (set_SP 0 0 (DROP 1 s2))
            else
             (let s3 = native_call (Call_IOCreatePlugInInterfaceForService ioService
                         kIOUSBInterfaceUserClientTypeID kIOCFPlugInInterfaceID) s2;
                  (ior, pluginInterface) = IOCreatePlugInInterfaceForService N ioService
                         kIOUSBInterfaceUserClientTypeID kIOCFPlugInInterfaceID
              in if ior \<noteq> kIOReturnSuccess \<or> pluginInterface = 0
                 then abort_zmsg ''IOCreatePlugInInterfaceForService failed'' s3
                 else
                  (let s4 = native_call (Call_QueryInterface pluginInterface
                              kIOUSBInterfaceInterfaceID190) s3;
                       (ior, intfInterface) = QueryInterface N pluginInterface
                              kIOUSBInterfaceInterfaceID190;
                       s5 = native_call (Call_Release pluginInterface) s4
                   in if ior \<noteq> kIOReturnSuccess \<or> intfInterface = 0
                      then abort_zmsg ''QueryInterface failed'' s5
                      else
                       (let s6 = native_call (Call_USBInterfaceOpen intfInterface) s5;
                            ior = USBInterfaceOpen N intfInterface
                        in if ior \<noteq> kIOReturnSuccess
                           then abort_zmsg ''USBInterfaceOpen failed'' s6
                           else Returned (set_SP 0 (- 1) (set_SP 1 intfInterface s6)))))))"

text \<open>\<open>usb-close (dev)\<close>, lines 194 to 206.\<close>

definition mu_usb_close :: "'a::len word native \<Rightarrow> 'a word machine \<Rightarrow> 'a word outcome" where
  "mu_usb_close N s0 =
    (let intfInterface = TOP s0;
         s1 = native_call (Call_USBInterfaceClose intfInterface) s0;
         ior = USBInterfaceClose N intfInterface
     in if ior \<noteq> kIOReturnSuccess
        then abort_zmsg ''USBInterfaceClose failed'' s1
        else Returned (DROP 1 (native_call (Call_Release intfInterface) s1)))"

text \<open>
  \<open>usb-control (bmRequestType bRequest wValue wIndex wLength 'buffer dev - count)\<close>,
  lines 211 to 234.
\<close>

definition mu_usb_control :: "'a::len word native \<Rightarrow> 'a word machine \<Rightarrow> 'a word outcome" where
  "mu_usb_control N s0 =
    (let intf = TOP s0;
         tr = \<lparr> bmRequestType = ucast (SP s0 6),
                bRequest = ucast (SP s0 5),
                wValue = ucast (SP s0 4),
                wIndex = ucast (ST3 s0),
                wLength = ucast (ST2 s0),
                pData = ST1 s0,
                noDataTimeout = 1000,
                completionTimeout = 4000 \<rparr>;
         s1 = DROP 6 s0;
         s2 = native_call (Call_ControlRequestTO intf 0 tr) s1;
         (ior, wLenDone) = ControlRequestTO N intf 0 tr
     in if ior \<noteq> kIOReturnSuccess
        then abort_zmsg ''ControlRequest failed'' (set_SP 0 0 s2)
        else Returned (set_SP 0 (ucast wLenDone) s2))"

text \<open>
  \<open>usb-get-pipe-properties (pipe# dev -- direction number transferType maxpacketsize
  interval)\<close>, lines 240 to 261.
\<close>

definition mu_usb_get_pipe_properties ::
    "'a::len word native \<Rightarrow> 'a word machine \<Rightarrow> 'a word outcome" where
  "mu_usb_get_pipe_properties N s0 =
    (let intf = TOP s0;
         pipeRef = ucast (ST1 s0);
         s1 = native_call (Call_GetPipeProperties intf pipeRef) s0;
         (ior, direction, number, transfer_type, max_packet_size, interval) =
            GetPipeProperties N intf pipeRef
     in if ior \<noteq> kIOReturnSuccess
        then abort_zmsg ''GetPipeProperties failed'' s1
        else Returned
          (set_SP 0 (ucast interval)
          (set_SP 1 (ucast max_packet_size)
          (set_SP 2 (ucast transfer_type)
          (set_SP 3 (ucast number)
          (set_SP 4 (ucast direction)
          (DROP (- 3) s1)))))))"

text \<open>\<open>usb-read ( 'buffer size pipe# dev -- #read)\<close>, lines 267 to 281.\<close>

definition mu_usb_read :: "'a::len word native \<Rightarrow> 'a word machine \<Rightarrow> 'a word outcome" where
  "mu_usb_read N s0 =
    (let intf = TOP s0;
         size0 = ucast (ST2 s0);
         pipe = ucast (ST1 s0);
         s1 = native_call (Call_ReadPipeTO intf pipe (ST3 s0) size0 100 400) s0;
         (ior, size1) = ReadPipeTO N intf pipe (ST3 s0) size0 100 400
     in if ior \<noteq> kIOReturnSuccess
        then abort_zmsg ''ReadPipe failed'' s1
        else Returned (set_SP 0 (ucast size1) (DROP 3 s1)))"

text \<open>\<open>usb-write ( 'buffer size pipe# dev)\<close>, lines 286 to 298.\<close>

definition mu_usb_write :: "'a::len word native \<Rightarrow> 'a word machine \<Rightarrow> 'a word outcome" where
  "mu_usb_write N s0 =
    (let intf = TOP s0;
         pipe = ucast (ST1 s0);
         s1 = native_call (Call_WritePipeTO intf pipe (ST3 s0) (ucast (ST2 s0)) 100 400) s0;
         ior = WritePipeTO N intf pipe (ST3 s0) (ucast (ST2 s0)) 100 400
     in if ior \<noteq> kIOReturnSuccess
        then abort_zmsg ''WritePipe failed'' s1
        else Returned (DROP 4 s1))"

subsection \<open>The device-level words (\<open>WITH_USB_DEVICE\<close>)\<close>

text \<open>
  \<open>usb-find-device (vendor-id product-id -- handle -1 | 0)\<close>, lines 34 to 83. The C
  function has the name of the interface-level one; the conditional it is compiled under
  tells them apart here.
\<close>

definition mu_usb_find_device_WITH_USB_DEVICE ::
    "'a::len word native \<Rightarrow> 'a word machine \<Rightarrow> 'a word outcome" where
  "mu_usb_find_device_WITH_USB_DEVICE N s0 =
    (let s1 = native_call (Call_IOServiceMatching kIOUSBDeviceClassName) s0 in
     case IOServiceMatching N kIOUSBDeviceClassName of
       None \<Rightarrow> abort_zmsg ''IOServiceMatching returned NULL'' s1
     | Some m0 \<Rightarrow>
        (let m1 = add_number_match m0 kUSBVendorID (ucast (ST1 s1));
             matching = add_number_match m1 kUSBProductID (ucast (TOP s1));
             s2 = native_call (Call_IOServiceGetMatchingService matching) s1;
             ioService = IOServiceGetMatchingService N matching
         in if ioService = 0 then Returned (set_SP 0 0 (DROP 1 s2))
            else
             (let s3 = native_call (Call_IOCreatePlugInInterfaceForService ioService
                         kIOUSBDeviceUserClientTypeID kIOCFPlugInInterfaceID) s2;
                  (ior, pluginInterface) = IOCreatePlugInInterfaceForService N ioService
                         kIOUSBDeviceUserClientTypeID kIOCFPlugInInterfaceID
              in if ior \<noteq> kIOReturnSuccess \<or> pluginInterface = 0
                 then abort_zmsg ''IOCreatePlugInInterfaceForService failed'' s3
                 else
                  (let s4 = native_call (Call_QueryInterface pluginInterface
                              kIOUSBDeviceInterfaceID) s3;
                       (ior, deviceInterface) = QueryInterface N pluginInterface
                              kIOUSBDeviceInterfaceID;
                       s5 = native_call (Call_Release pluginInterface) s4
                   in if ior \<noteq> kIOReturnSuccess \<or> deviceInterface = 0
                      then abort_zmsg ''QueryInterface failed'' s5
                      else Returned (set_SP 0 (- 1) (set_SP 1 deviceInterface s5))))))"

text \<open>\<open>usb-close-device (devhandle)\<close>, lines 88 to 95.\<close>

definition mu_usb_close_device ::
    "'a::len word native \<Rightarrow> 'a word machine \<Rightarrow> 'a word outcome" where
  "mu_usb_close_device N s0 =
    (let deviceInterface = TOP s0
     in Returned (DROP 1 (native_call (Call_Release deviceInterface) s0)))"

text \<open>
  \<open>usb-device-request (bmRequestType bRequest wValue wIndex wLength 'buffer device)\<close>,
  lines 100 to 116.
\<close>

definition mu_usb_device_request ::
    "'a::len word native \<Rightarrow> 'a word machine \<Rightarrow> 'a word outcome" where
  "mu_usb_device_request N s0 =
    (let dev = TOP s0;
         tr = \<lparr> bmRequestType = ucast (SP s0 6),
                bRequest = ucast (SP s0 5),
                wValue = ucast (SP s0 4),
                wIndex = ucast (ST3 s0),
                wLength = ucast (ST2 s0),
                pData = ST1 s0 \<rparr>;
         s1 = DROP 7 s0;
         s2 = native_call (Call_DeviceRequest dev tr) s1;
         ior = DeviceRequest N dev tr
     in if ior \<noteq> kIOReturnSuccess
        then abort_zmsg ''DeviceRequest failed'' s2
        else Returned s2)"

subsection \<open>A test double for the native layer\<close>

text \<open>
  A native layer on 64-bit cells whose lookup answers \<open>svc\<close>, whose plug-in creation
  always succeeds, and whose other calls answer the status \<open>ior\<close>; a read or a control
  transfer moves at most 8 bytes. \<open>machine_with xs\<close> is a machine whose stack holds the
  cells \<open>xs\<close>, the top one first, and whose log is empty.
\<close>

definition test_native :: "io_service_t \<Rightarrow> IOReturn \<Rightarrow> 64 word native" where
  "test_native svc ior =
    \<lparr> IOServiceMatching = (\<lambda>cls. Some [(''IOProviderClass'', CFString cls)]),
      IOServiceGetMatchingService = (\<lambda>m. svc),
      IOCreatePlugInInterfaceForService = (\<lambda>service pluginType interfaceType. (0, 4096)),
      QueryInterface = (\<lambda>plugin iid. (ior, 8192)),
      USBInterfaceOpen = (\<lambda>intf. ior),
      USBInterfaceClose = (\<lambda>intf. ior),
      DeviceRequest = (\<lambda>dev tr. ior),
      ControlRequestTO = (\<lambda>intf pipeRef tr. (ior, min (ucast (wLength tr)) 8)),
      GetPipeProperties = (\<lambda>intf pipeRef. (ior, 1, pipeRef, 2, 64, 0)),
      ReadPipeTO = (\<lambda>intf pipeRef buf n noData completion. (ior, min n 8)),
      WritePipeTO = (\<lambda>intf pipeRef buf n noData completion. ior) \<rparr>"

definition machine_with :: "64 word list \<Rightarrow> 64 word machine" where
  "machine_with xs =
    \<lparr> sp = 0,
      stack = (\<lambda>i. if 0 \<le> i \<and> i < int (length xs) then xs ! nat i else 0),
      calls = [] \<rparr>"

section \<open>Properties\<close>

lemmas stack_defs = SP_def TOP_def ST1_def ST2_def ST3_def set_SP_def DROP_def native_call_def
  abort_zmsg_def calls_made_def

lemmas test_defs = test_native_def machine_with_def kIOUSBInterfaceClassName_def
  kIOUSBDeviceClassName_def kUSBVendorID_def kUSBProductID_def kUSBInterfaceNumber_def
  kUSBConfigurationValue_def add_number_match_def kIOReturnSuccess_def

subsection \<open>Conversions between cells and native integers\<close>

text \<open>
  Narrowing a cell never increases its unsigned value and keeps a value that fits; a
  word that is not negative has the same signed and unsigned value.
\<close>

lemma unat_ucast_le: "unat (ucast x :: 'b::len word) \<le> unat (x :: 'a::len word)"
  by (simp add: unsigned_ucast_eq)

lemma unat_ucast_fits:
  "unat (x :: 'a::len word) < 2 ^ LENGTH('b) \<Longrightarrow> unat (ucast x :: 'b::len word) = unat x"
  by (simp add: unsigned_ucast_eq take_bit_nat_eq_self)

lemma sint_eq_uint_if_nonneg:
  fixes a :: "'a::len word"
  assumes "0 \<le> sint a"
  shows "sint a = uint a"
proof -
  from assms have "\<not> sint a < 0"
    by simp
  then have "\<not> bit a (LENGTH('a) - Suc 0)"
    by (simp add: bit_last_iff)
  then have nb: "\<not> bit (uint a) (LENGTH('a) - Suc 0)"
    by (simp add: bit_uint_iff)
  have "sint a = take_bit (Suc (LENGTH('a) - Suc 0)) (uint a)"
    using nb by (simp add: sint_uint signed_take_bit_eq_take_bit_minus)
  also have "Suc (LENGTH('a) - Suc 0) = LENGTH('a)"
    by simp
  also have "take_bit LENGTH('a) (uint a) = uint a"
    by (simp add: take_bit_int_eq_self_iff)
  finally show ?thesis .
qed

lemma sint_eq_uint_if_small:
  fixes t :: "'a::len word"
  assumes "uint t < 2 ^ (LENGTH('a) - Suc 0)"
  shows "sint t = uint t"
proof -
  have "- (2 ^ (LENGTH('a) - Suc 0)) \<le> uint t"
    by (rule order_trans [of _ 0]) simp_all
  with assms show ?thesis
    by (simp add: sint_uint signed_take_bit_int_eq_self)
qed

lemma sint_nonneg_le:
  fixes a t :: "'a::len word"
  assumes "0 \<le> sint a" and "unat t \<le> unat a"
  shows "0 \<le> sint t \<and> sint t \<le> sint a"
proof -
  have a: "sint a = uint a"
    using assms(1) by (rule sint_eq_uint_if_nonneg)
  have "uint a < 2 ^ (LENGTH('a) - Suc 0)"
    using sint_lt [of a] a by simp
  moreover have "int (unat t) \<le> int (unat a)"
    using assms(2) by (simp only: of_nat_le_iff)
  then have le: "uint t \<le> uint a"
    by (simp only: uint_nat)
  ultimately have "sint t = uint t"
    by (intro sint_eq_uint_if_small) simp
  with a le show ?thesis by simp
qed

subsection \<open>Looking up an interface\<close>

text \<open>
  C1: when the matching dictionary has been created and the service lookup on the
  criteria built from the two inputs answers 0 (no matching interface), the word
  returns without aborting, \<open>SP\<close> has risen by one (two inputs consumed, one output
  produced), the only stack slot written is the new top, and it holds the flag 0. No
  handle is stored.
\<close>

theorem find_device_not_found:
  fixes N :: "'a::len word native" and s :: "'a word machine"
  assumes "IOServiceMatching N kIOUSBInterfaceClassName = Some m0"
    and "IOServiceGetMatchingService N
           (add_number_match
             (add_number_match
               (add_number_match
                 (add_number_match m0 kUSBVendorID (ucast (ST1 s)))
                 kUSBProductID (ucast (TOP s)))
               kUSBInterfaceNumber 0)
             kUSBConfigurationValue 1) = 0"
  shows "\<not> aborted (mu_usb_find_device N s)
       \<and> sp (machine_of (mu_usb_find_device N s)) = sp s + 1
       \<and> stack (machine_of (mu_usb_find_device N s)) = (stack s)(sp s + 1 := 0)
       \<and> TOP (machine_of (mu_usb_find_device N s)) = 0"
  using assms by (simp add: mu_usb_find_device_def stack_defs Let_def)

text \<open>An instance: vendor and product \<open>0xFFFF\<close> against a native layer that finds nothing.\<close>

theorem find_device_not_found_witness:
  "IOServiceMatching (test_native 0 0) kIOUSBInterfaceClassName
      = Some [(''IOProviderClass'', CFString ''IOUSBInterface'')]
   \<and> IOServiceGetMatchingService (test_native 0 0)
           (add_number_match
             (add_number_match
               (add_number_match
                 (add_number_match [(''IOProviderClass'', CFString ''IOUSBInterface'')]
                    kUSBVendorID (ucast (ST1 (machine_with [0xFFFF, 0xFFFF]))))
                 kUSBProductID (ucast (TOP (machine_with [0xFFFF, 0xFFFF]))))
               kUSBInterfaceNumber 0)
             kUSBConfigurationValue 1) = 0
   \<and> \<not> aborted (mu_usb_find_device (test_native 0 0) (machine_with [0xFFFF, 0xFFFF]))
   \<and> sp (machine_of (mu_usb_find_device (test_native 0 0) (machine_with [0xFFFF, 0xFFFF]))) = 1
   \<and> TOP (machine_of (mu_usb_find_device (test_native 0 0) (machine_with [0xFFFF, 0xFFFF]))) = 0"
  using find_device_not_found [where N = "test_native 0 0"
      and ?m0.0 = "[(''IOProviderClass'', CFString ''IOUSBInterface'')]"
      and s = "machine_with [0xFFFF, 0xFFFF]"]
  by (simp add: test_defs)

text \<open>
  C2: when the service lookup, the plug-in creation, the interface query and the opening
  of the interface all succeed, the word returns with \<open>SP\<close> where it was; the two input
  slots now hold the interface handle (second) and the flag \<open>-1\<close> (top), whose bits are
  all set; no other slot is written. The handle is the interface that the query
  delivered and that the word has opened: its calls, all made before the stack is
  touched, end with \<open>USBInterfaceOpen\<close> on that interface.
\<close>

theorem find_device_found:
  fixes N :: "'a::len word native" and s :: "'a word machine"
  assumes "IOServiceMatching N kIOUSBInterfaceClassName = Some m0"
    and "IOServiceGetMatchingService N
           (add_number_match
             (add_number_match
               (add_number_match
                 (add_number_match m0 kUSBVendorID (ucast (ST1 s)))
                 kUSBProductID (ucast (TOP s)))
               kUSBInterfaceNumber 0)
             kUSBConfigurationValue 1) = ioService"
    and "ioService \<noteq> 0"
    and "IOCreatePlugInInterfaceForService N ioService
           kIOUSBInterfaceUserClientTypeID kIOCFPlugInInterfaceID
         = (kIOReturnSuccess, pluginInterface)"
    and "pluginInterface \<noteq> 0"
    and "QueryInterface N pluginInterface kIOUSBInterfaceInterfaceID190
         = (kIOReturnSuccess, intfInterface)"
    and "intfInterface \<noteq> 0"
    and "USBInterfaceOpen N intfInterface = kIOReturnSuccess"
  shows "\<not> aborted (mu_usb_find_device N s)
       \<and> sp (machine_of (mu_usb_find_device N s)) = sp s
       \<and> stack (machine_of (mu_usb_find_device N s))
           = (stack s)(sp s + 1 := intfInterface, sp s := - 1)
       \<and> ST1 (machine_of (mu_usb_find_device N s)) = intfInterface
       \<and> TOP (machine_of (mu_usb_find_device N s)) = - 1
       \<and> NOT (TOP (machine_of (mu_usb_find_device N s))) = 0
       \<and> calls_made s (mu_usb_find_device N s)
           = [(sp s, Call_IOServiceMatching kIOUSBInterfaceClassName),
              (sp s, Call_IOServiceGetMatchingService
                 (add_number_match
                   (add_number_match
                     (add_number_match
                       (add_number_match m0 kUSBVendorID (ucast (ST1 s)))
                       kUSBProductID (ucast (TOP s)))
                     kUSBInterfaceNumber 0)
                   kUSBConfigurationValue 1)),
              (sp s, Call_IOCreatePlugInInterfaceForService ioService
                 kIOUSBInterfaceUserClientTypeID kIOCFPlugInInterfaceID),
              (sp s, Call_QueryInterface pluginInterface kIOUSBInterfaceInterfaceID190),
              (sp s, Call_Release pluginInterface),
              (sp s, Call_USBInterfaceOpen intfInterface)]
       \<and> last (calls_made s (mu_usb_find_device N s))
           = (sp s, Call_USBInterfaceOpen intfInterface)"
  using assms by (simp add: mu_usb_find_device_def stack_defs Let_def)

text \<open>An instance: vendor \<open>0x0483\<close>, product \<open>0x5740\<close>, every native call succeeding.\<close>

theorem find_device_found_witness:
  "IOServiceMatching (test_native 7 0) kIOUSBInterfaceClassName
      = Some [(''IOProviderClass'', CFString ''IOUSBInterface'')]
   \<and> IOServiceGetMatchingService (test_native 7 0)
           (add_number_match
             (add_number_match
               (add_number_match
                 (add_number_match [(''IOProviderClass'', CFString ''IOUSBInterface'')]
                    kUSBVendorID (ucast (ST1 (machine_with [0x5740, 0x0483]))))
                 kUSBProductID (ucast (TOP (machine_with [0x5740, 0x0483]))))
               kUSBInterfaceNumber 0)
             kUSBConfigurationValue 1) = 7
   \<and> (7 :: io_service_t) \<noteq> 0
   \<and> IOCreatePlugInInterfaceForService (test_native 7 0) 7
           kIOUSBInterfaceUserClientTypeID kIOCFPlugInInterfaceID = (kIOReturnSuccess, 4096)
   \<and> (4096 :: 64 word) \<noteq> 0
   \<and> QueryInterface (test_native 7 0) 4096 kIOUSBInterfaceInterfaceID190
         = (kIOReturnSuccess, 8192)
   \<and> (8192 :: 64 word) \<noteq> 0
   \<and> USBInterfaceOpen (test_native 7 0) 8192 = kIOReturnSuccess
   \<and> \<not> aborted (mu_usb_find_device (test_native 7 0) (machine_with [0x5740, 0x0483]))
   \<and> sp (machine_of (mu_usb_find_device (test_native 7 0) (machine_with [0x5740, 0x0483]))) = 0
   \<and> ST1 (machine_of (mu_usb_find_device (test_native 7 0) (machine_with [0x5740, 0x0483]))) = 8192
   \<and> TOP (machine_of (mu_usb_find_device (test_native 7 0) (machine_with [0x5740, 0x0483])))
        = 0xFFFFFFFFFFFFFFFF
   \<and> last (calls_made (machine_with [0x5740, 0x0483])
        (mu_usb_find_device (test_native 7 0) (machine_with [0x5740, 0x0483])))
        = (0, Call_USBInterfaceOpen 8192)"
  using find_device_found [where N = "test_native 7 0"
      and ?m0.0 = "[(''IOProviderClass'', CFString ''IOUSBInterface'')]"
      and s = "machine_with [0x5740, 0x0483]" and ioService = 7
      and pluginInterface = 4096 and intfInterface = 8192]
  by (simp add: test_defs)

subsection \<open>Closing an interface\<close>

text \<open>
  C3: \<open>usb-close\<close> calls \<open>USBInterfaceClose\<close> first. When that fails the word aborts
  with the close as its only native call: \<open>Release\<close> is not called, \<open>SP\<close> and the stack
  are as before, so the handle is still on the stack. When it succeeds, \<open>Release\<close> is
  the second call, made while \<open>SP\<close> still points at the handle, and only then the handle
  is dropped.
\<close>

theorem close_then_release:
  fixes N :: "'a::len word native" and s :: "'a word machine"
  shows "(USBInterfaceClose N (TOP s) \<noteq> kIOReturnSuccess \<longrightarrow>
            mu_usb_close N s = Aborted ''USBInterfaceClose failed'' (machine_of (mu_usb_close N s))
          \<and> calls_made s (mu_usb_close N s) = [(sp s, Call_USBInterfaceClose (TOP s))]
          \<and> sp (machine_of (mu_usb_close N s)) = sp s
          \<and> stack (machine_of (mu_usb_close N s)) = stack s)
       \<and> (USBInterfaceClose N (TOP s) = kIOReturnSuccess \<longrightarrow>
            mu_usb_close N s = Returned (machine_of (mu_usb_close N s))
          \<and> calls_made s (mu_usb_close N s)
               = [(sp s, Call_USBInterfaceClose (TOP s)), (sp s, Call_Release (TOP s))]
          \<and> sp (machine_of (mu_usb_close N s)) = sp s + 1
          \<and> stack (machine_of (mu_usb_close N s)) = stack s)"
  by (simp add: mu_usb_close_def stack_defs Let_def)

text \<open>An instance: closing the handle 8192 with a failing and with a succeeding close.\<close>

theorem close_then_release_witness:
  "mu_usb_close (test_native 7 5) (machine_with [8192])
     = Aborted ''USBInterfaceClose failed'' (machine_of (mu_usb_close (test_native 7 5) (machine_with [8192])))
   \<and> calls_made (machine_with [8192]) (mu_usb_close (test_native 7 5) (machine_with [8192]))
       = [(0, Call_USBInterfaceClose 8192)]
   \<and> sp (machine_of (mu_usb_close (test_native 7 5) (machine_with [8192]))) = 0
   \<and> TOP (machine_of (mu_usb_close (test_native 7 5) (machine_with [8192]))) = 8192
   \<and> mu_usb_close (test_native 7 0) (machine_with [8192])
     = Returned (machine_of (mu_usb_close (test_native 7 0) (machine_with [8192])))
   \<and> calls_made (machine_with [8192]) (mu_usb_close (test_native 7 0) (machine_with [8192]))
       = [(0, Call_USBInterfaceClose 8192), (0, Call_Release 8192)]
   \<and> sp (machine_of (mu_usb_close (test_native 7 0) (machine_with [8192]))) = 1"
  using close_then_release [of "test_native 7 5" "machine_with [8192]"]
    close_then_release [of "test_native 7 0" "machine_with [8192]"]
  by (simp add: test_defs TOP_def SP_def)

subsection \<open>Control transfers\<close>

text \<open>
  C4: \<open>usb-control\<close> leaves \<open>SP\<close> six cells higher in every case (seven inputs, one
  output). When the native request fails, the output slot holds 0 and the word aborts;
  when it succeeds, the word returns and the slot holds the count \<open>wLenDone\<close> that the
  native layer reported, unchanged in value on cells of 32 bits or more.
\<close>

theorem control_count:
  fixes N :: "'a::len word native" and s :: "'a word machine"
  assumes "ControlRequestTO N (TOP s) 0
             \<lparr> bmRequestType = ucast (SP s 6),
               bRequest = ucast (SP s 5),
               wValue = ucast (SP s 4),
               wIndex = ucast (ST3 s),
               wLength = ucast (ST2 s),
               pData = ST1 s,
               noDataTimeout = 1000,
               completionTimeout = 4000 \<rparr> = (ior, wLenDone)"
  shows "sp (machine_of (mu_usb_control N s)) = sp s + 6
       \<and> (ior \<noteq> kIOReturnSuccess \<longrightarrow>
            mu_usb_control N s = Aborted ''ControlRequest failed'' (machine_of (mu_usb_control N s))
          \<and> stack (machine_of (mu_usb_control N s)) = (stack s)(sp s + 6 := 0)
          \<and> TOP (machine_of (mu_usb_control N s)) = 0)
       \<and> (ior = kIOReturnSuccess \<longrightarrow>
            mu_usb_control N s = Returned (machine_of (mu_usb_control N s))
          \<and> stack (machine_of (mu_usb_control N s)) = (stack s)(sp s + 6 := ucast wLenDone)
          \<and> TOP (machine_of (mu_usb_control N s)) = ucast wLenDone
          \<and> (32 \<le> LENGTH('a) \<longrightarrow> unat (TOP (machine_of (mu_usb_control N s))) = unat wLenDone))"
proof -
  have "32 \<le> LENGTH('a) \<Longrightarrow> unat (ucast wLenDone :: 'a word) = unat wLenDone"
  proof (rule unat_ucast_fits)
    assume "32 \<le> LENGTH('a)"
    then have "(2::nat) ^ 32 \<le> 2 ^ LENGTH('a)"
      by (rule power_increasing) simp
    moreover have "unat wLenDone < 2 ^ 32"
      using unsigned_less [of wLenDone, where 'a = nat] by simp
    ultimately show "unat wLenDone < 2 ^ LENGTH('a)"
      by (rule less_le_trans [rotated])
  qed
  with assms show ?thesis
    by (simp add: mu_usb_control_def stack_defs Let_def)
qed

text \<open>
  An instance: a request for 18 bytes on the handle 8192, failing with status 5 and
  succeeding with 8 bytes moved; the cell 99 below the inputs is the new second element.
\<close>

theorem control_count_witness:
  "ControlRequestTO (test_native 7 5) (TOP (machine_with [8192, 12288, 18, 0, 256, 6, 128, 99])) 0
             \<lparr> bmRequestType = ucast (SP (machine_with [8192, 12288, 18, 0, 256, 6, 128, 99]) 6),
               bRequest = ucast (SP (machine_with [8192, 12288, 18, 0, 256, 6, 128, 99]) 5),
               wValue = ucast (SP (machine_with [8192, 12288, 18, 0, 256, 6, 128, 99]) 4),
               wIndex = ucast (ST3 (machine_with [8192, 12288, 18, 0, 256, 6, 128, 99])),
               wLength = ucast (ST2 (machine_with [8192, 12288, 18, 0, 256, 6, 128, 99])),
               pData = ST1 (machine_with [8192, 12288, 18, 0, 256, 6, 128, 99]),
               noDataTimeout = 1000,
               completionTimeout = 4000 \<rparr> = (5, 8)
   \<and> (5 :: IOReturn) \<noteq> kIOReturnSuccess
   \<and> mu_usb_control (test_native 7 5) (machine_with [8192, 12288, 18, 0, 256, 6, 128, 99])
       = Aborted ''ControlRequest failed''
           (machine_of (mu_usb_control (test_native 7 5)
              (machine_with [8192, 12288, 18, 0, 256, 6, 128, 99])))
   \<and> sp (machine_of (mu_usb_control (test_native 7 5)
              (machine_with [8192, 12288, 18, 0, 256, 6, 128, 99]))) = 6
   \<and> TOP (machine_of (mu_usb_control (test_native 7 5)
              (machine_with [8192, 12288, 18, 0, 256, 6, 128, 99]))) = 0
   \<and> ST1 (machine_of (mu_usb_control (test_native 7 5)
              (machine_with [8192, 12288, 18, 0, 256, 6, 128, 99]))) = 99
   \<and> mu_usb_control (test_native 7 0) (machine_with [8192, 12288, 18, 0, 256, 6, 128, 99])
       = Returned
           (machine_of (mu_usb_control (test_native 7 0)
              (machine_with [8192, 12288, 18, 0, 256, 6, 128, 99])))
   \<and> TOP (machine_of (mu_usb_control (test_native 7 0)
              (machine_with [8192, 12288, 18, 0, 256, 6, 128, 99]))) = 8
   \<and> unat (TOP (machine_of (mu_usb_control (test_native 7 0)
              (machine_with [8192, 12288, 18, 0, 256, 6, 128, 99])))) = 8"
  using control_count [where N = "test_native 7 5"
      and s = "machine_with [8192, 12288, 18, 0, 256, 6, 128, 99]" and ior = 5 and wLenDone = 8]
    control_count [where N = "test_native 7 0"
      and s = "machine_with [8192, 12288, 18, 0, 256, 6, 128, 99]" and ior = 0 and wLenDone = 8]
  by (simp add: test_defs TOP_def ST1_def ST2_def ST3_def SP_def)

subsection \<open>Reading from a pipe\<close>

text \<open>
  C5: when \<open>ReadPipeTO\<close> succeeds and reports a length no larger than the length it was
  given, \<open>usb-read\<close> returns a count that is at most the size the caller supplied. Sizes
  and counts are byte counts, compared as unsigned numbers, as the code reads the size
  into a \<open>UInt32\<close>; for a size that is not negative as a signed cell the signed
  comparison holds as well.
\<close>

theorem read_count_bounded:
  fixes N :: "'a::len word native" and s :: "'a word machine"
  assumes "ReadPipeTO N (TOP s) (ucast (ST1 s)) (ST3 s) (ucast (ST2 s)) 100 400
             = (kIOReturnSuccess, size1)"
    and "size1 \<le> ucast (ST2 s)"
  shows "mu_usb_read N s = Returned (machine_of (mu_usb_read N s))
       \<and> sp (machine_of (mu_usb_read N s)) = sp s + 3
       \<and> TOP (machine_of (mu_usb_read N s)) = ucast size1
       \<and> unat (TOP (machine_of (mu_usb_read N s))) \<le> unat (ST2 s)
       \<and> (0 \<le> sint (ST2 s) \<longrightarrow>
            0 \<le> sint (TOP (machine_of (mu_usb_read N s)))
          \<and> sint (TOP (machine_of (mu_usb_read N s))) \<le> sint (ST2 s))"
proof -
  let ?top = "TOP (machine_of (mu_usb_read N s))"
  have ret: "mu_usb_read N s = Returned (machine_of (mu_usb_read N s))"
    and sp: "sp (machine_of (mu_usb_read N s)) = sp s + 3"
    and top: "?top = ucast size1"
    using assms(1) by (simp_all add: mu_usb_read_def stack_defs Let_def)
  have "unat (ucast size1 :: 'a word) \<le> unat size1"
    by (rule unat_ucast_le)
  also have "unat size1 \<le> unat (ucast (ST2 s) :: 32 word)"
    using assms(2) by (simp only: word_le_nat_alt)
  also have "unat (ucast (ST2 s) :: 32 word) \<le> unat (ST2 s)"
    by (rule unat_ucast_le)
  finally have le: "unat ?top \<le> unat (ST2 s)"
    by (simp only: top)
  have "0 \<le> sint (ST2 s) \<longrightarrow> 0 \<le> sint ?top \<and> sint ?top \<le> sint (ST2 s)"
  proof
    assume "0 \<le> sint (ST2 s)"
    then show "0 \<le> sint ?top \<and> sint ?top \<le> sint (ST2 s)"
      using le by (rule sint_nonneg_le)
  qed
  with ret sp top le show ?thesis
    by blast
qed

text \<open>An instance: a read of up to 64 bytes from pipe 129 that delivers 8 bytes.\<close>

theorem read_count_bounded_witness:
  "ReadPipeTO (test_native 7 0) (TOP (machine_with [8192, 129, 64, 12288, 99]))
       (ucast (ST1 (machine_with [8192, 129, 64, 12288, 99])))
       (ST3 (machine_with [8192, 129, 64, 12288, 99]))
       (ucast (ST2 (machine_with [8192, 129, 64, 12288, 99]))) 100 400 = (kIOReturnSuccess, 8)
   \<and> (8 :: UInt32) \<le> ucast (ST2 (machine_with [8192, 129, 64, 12288, 99]))
   \<and> mu_usb_read (test_native 7 0) (machine_with [8192, 129, 64, 12288, 99])
       = Returned (machine_of (mu_usb_read (test_native 7 0)
                     (machine_with [8192, 129, 64, 12288, 99])))
   \<and> sp (machine_of (mu_usb_read (test_native 7 0)
             (machine_with [8192, 129, 64, 12288, 99]))) = 3
   \<and> TOP (machine_of (mu_usb_read (test_native 7 0)
             (machine_with [8192, 129, 64, 12288, 99]))) = 8
   \<and> unat (TOP (machine_of (mu_usb_read (test_native 7 0)
             (machine_with [8192, 129, 64, 12288, 99]))))
        \<le> unat (ST2 (machine_with [8192, 129, 64, 12288, 99]))
   \<and> ST2 (machine_with [8192, 129, 64, 12288, 99]) = 64"
  using read_count_bounded [where N = "test_native 7 0"
      and s = "machine_with [8192, 129, 64, 12288, 99]" and ?size1.0 = 8]
  by (auto simp add: test_defs TOP_def ST1_def ST2_def ST3_def SP_def)

subsection \<open>Pipe properties\<close>

text \<open>
  C6: \<open>usb-get-pipe-properties\<close> makes one native call, \<open>GetPipeProperties\<close>. When it
  succeeds the word returns with \<open>SP\<close> three cells lower (two inputs, five outputs) and
  the five slots hold, from the deepest to the top, direction, number, transfer type,
  maximal packet size and interval, all out-values of that call; nothing else is
  written. When it fails the word aborts with \<open>SP\<close> and the stack as they were.
\<close>

theorem get_pipe_properties_outputs:
  fixes N :: "'a::len word native" and s :: "'a word machine"
  assumes "GetPipeProperties N (TOP s) (ucast (ST1 s))
             = (ior, direction, number, transfer_type, max_packet_size, interval)"
  shows "map snd (calls_made s (mu_usb_get_pipe_properties N s))
            = [Call_GetPipeProperties (TOP s) (ucast (ST1 s))]
       \<and> (ior = kIOReturnSuccess \<longrightarrow>
            mu_usb_get_pipe_properties N s
              = Returned (machine_of (mu_usb_get_pipe_properties N s))
          \<and> sp (machine_of (mu_usb_get_pipe_properties N s)) = sp s - 3
          \<and> stack (machine_of (mu_usb_get_pipe_properties N s))
              = (stack s)(sp s + 1 := ucast direction,
                          sp s := ucast number,
                          sp s - 1 := ucast transfer_type,
                          sp s - 2 := ucast max_packet_size,
                          sp s - 3 := ucast interval))
       \<and> (ior \<noteq> kIOReturnSuccess \<longrightarrow>
            mu_usb_get_pipe_properties N s
              = Aborted ''GetPipeProperties failed'' (machine_of (mu_usb_get_pipe_properties N s))
          \<and> sp (machine_of (mu_usb_get_pipe_properties N s)) = sp s
          \<and> stack (machine_of (mu_usb_get_pipe_properties N s)) = stack s)"
  using assms by (auto simp add: mu_usb_get_pipe_properties_def stack_defs Let_def fun_eq_iff)

text \<open>An instance: the properties of pipe 2 on the handle 8192, found and not found.\<close>

theorem get_pipe_properties_outputs_witness:
  "GetPipeProperties (test_native 7 0) (TOP (machine_with [8192, 2, 99]))
       (ucast (ST1 (machine_with [8192, 2, 99]))) = (0, 1, 2, 2, 64, 0)
   \<and> mu_usb_get_pipe_properties (test_native 7 0) (machine_with [8192, 2, 99])
       = Returned (machine_of (mu_usb_get_pipe_properties (test_native 7 0)
                     (machine_with [8192, 2, 99])))
   \<and> sp (machine_of (mu_usb_get_pipe_properties (test_native 7 0)
             (machine_with [8192, 2, 99]))) = - 3
   \<and> map (stack (machine_of (mu_usb_get_pipe_properties (test_native 7 0)
                   (machine_with [8192, 2, 99])))) [1, 0, - 1, - 2, - 3, 2]
       = [1, 2, 2, 64, 0, 99]
   \<and> GetPipeProperties (test_native 7 5) (TOP (machine_with [8192, 2, 99]))
       (ucast (ST1 (machine_with [8192, 2, 99]))) = (5, 1, 2, 2, 64, 0)
   \<and> (5 :: IOReturn) \<noteq> kIOReturnSuccess
   \<and> mu_usb_get_pipe_properties (test_native 7 5) (machine_with [8192, 2, 99])
       = Aborted ''GetPipeProperties failed''
          (machine_of (mu_usb_get_pipe_properties (test_native 7 5)
                     (machine_with [8192, 2, 99])))
   \<and> sp (machine_of (mu_usb_get_pipe_properties (test_native 7 5)
             (machine_with [8192, 2, 99]))) = 0
   \<and> stack (machine_of (mu_usb_get_pipe_properties (test_native 7 5)
             (machine_with [8192, 2, 99]))) = stack (machine_with [8192, 2, 99])"
  using get_pipe_properties_outputs [where N = "test_native 7 0"
      and s = "machine_with [8192, 2, 99]" and ior = 0 and direction = 1 and number = 2
      and transfer_type = 2 and max_packet_size = 64 and interval = 0]
    get_pipe_properties_outputs [where N = "test_native 7 5"
      and s = "machine_with [8192, 2, 99]" and ior = 5 and direction = 1 and number = 2
      and transfer_type = 2 and max_packet_size = 64 and interval = 0]
  by (auto simp add: test_defs TOP_def ST1_def ST2_def ST3_def SP_def)

subsection \<open>Timeouts\<close>

text \<open>
  C7: whatever the stack holds and whatever the native layer answers, \<open>usb-control\<close>
  makes exactly one call, \<open>ControlRequestTO\<close>, with \<open>noDataTimeout\<close> 1000 and
  \<open>completionTimeout\<close> 4000, and \<open>usb-read\<close> and \<open>usb-write\<close> each make exactly one
  call, \<open>ReadPipeTO\<close> and \<open>WritePipeTO\<close>, with the timeouts 100 and 400.
\<close>

theorem fixed_timeouts:
  fixes N :: "'a::len word native" and s :: "'a word machine"
  shows "map snd (calls_made s (mu_usb_control N s))
           = [Call_ControlRequestTO (TOP s) 0
               \<lparr> bmRequestType = ucast (SP s 6),
                 bRequest = ucast (SP s 5),
                 wValue = ucast (SP s 4),
                 wIndex = ucast (ST3 s),
                 wLength = ucast (ST2 s),
                 pData = ST1 s,
                 noDataTimeout = 1000,
                 completionTimeout = 4000 \<rparr>]
       \<and> map snd (calls_made s (mu_usb_read N s))
           = [Call_ReadPipeTO (TOP s) (ucast (ST1 s)) (ST3 s) (ucast (ST2 s)) 100 400]
       \<and> map snd (calls_made s (mu_usb_write N s))
           = [Call_WritePipeTO (TOP s) (ucast (ST1 s)) (ST3 s) (ucast (ST2 s)) 100 400]"
  by (simp add: mu_usb_control_def mu_usb_read_def mu_usb_write_def stack_defs Let_def
      split: prod.splits)

text \<open>An instance of each of the three words.\<close>

theorem fixed_timeouts_witness:
  "map snd (calls_made (machine_with [8192, 12288, 18, 0, 256, 6, 128, 99])
      (mu_usb_control (test_native 7 0) (machine_with [8192, 12288, 18, 0, 256, 6, 128, 99])))
     = [Call_ControlRequestTO 8192 0
               \<lparr> bmRequestType = 128, bRequest = 6, wValue = 256, wIndex = 0, wLength = 18,
                 pData = 12288, noDataTimeout = 1000, completionTimeout = 4000 \<rparr>]
   \<and> map snd (calls_made (machine_with [8192, 129, 64, 12288, 99])
      (mu_usb_read (test_native 7 0) (machine_with [8192, 129, 64, 12288, 99])))
     = [Call_ReadPipeTO 8192 129 12288 64 100 400]
   \<and> map snd (calls_made (machine_with [8192, 1, 64, 12288, 99])
      (mu_usb_write (test_native 7 5) (machine_with [8192, 1, 64, 12288, 99])))
     = [Call_WritePipeTO 8192 1 12288 64 100 400]"
  using fixed_timeouts [of "machine_with [8192, 12288, 18, 0, 256, 6, 128, 99]" "test_native 7 0"]
    fixed_timeouts [of "machine_with [8192, 129, 64, 12288, 99]" "test_native 7 0"]
    fixed_timeouts [of "machine_with [8192, 1, 64, 12288, 99]" "test_native 7 5"]
  by (auto simp add: test_defs TOP_def ST1_def ST2_def ST3_def SP_def)

subsection \<open>Match criteria\<close>

text \<open>
  C8: \<open>usb-find-device\<close> hands the service lookup one dictionary, and only when
  \<open>IOServiceMatching\<close> has created one: the dictionary that \<open>IOServiceMatching\<close>
  returned for the interface class, in which the code has set four entries and no
  other: the vendor id from the second stack element, the product id from the top
  element, the interface number 0 and the configuration value 1. The two ids are stored
  as \<open>SInt32\<close>, which keeps every input below \<open>2 ^ 32\<close> as it is.
\<close>

theorem find_device_criteria:
  fixes N :: "'a::len word native" and s :: "'a word machine"
  shows "(IOServiceMatching N kIOUSBInterfaceClassName = None \<longrightarrow>
            lookup_criteria (map snd (calls_made s (mu_usb_find_device N s))) = [])
       \<and> (IOServiceMatching N kIOUSBInterfaceClassName = Some m0 \<longrightarrow>
            lookup_criteria (map snd (calls_made s (mu_usb_find_device N s)))
              = [add_number_match
                  (add_number_match
                    (add_number_match
                      (add_number_match m0 kUSBVendorID (ucast (ST1 s)))
                      kUSBProductID (ucast (TOP s)))
                    kUSBInterfaceNumber 0)
                  kUSBConfigurationValue 1]
          \<and> map_of
               (add_number_match
                  (add_number_match
                    (add_number_match
                      (add_number_match m0 kUSBVendorID (ucast (ST1 s)))
                      kUSBProductID (ucast (TOP s)))
                    kUSBInterfaceNumber 0)
                  kUSBConfigurationValue 1)
              = (map_of m0)
                  (kUSBVendorID \<mapsto> CFNumber (ucast (ST1 s)),
                   kUSBProductID \<mapsto> CFNumber (ucast (TOP s)),
                   kUSBInterfaceNumber \<mapsto> CFNumber 0,
                   kUSBConfigurationValue \<mapsto> CFNumber 1)
          \<and> (unat (ST1 s) < 2 ^ 32 \<longrightarrow> unat (ucast (ST1 s) :: SInt32) = unat (ST1 s))
          \<and> (unat (TOP s) < 2 ^ 32 \<longrightarrow> unat (ucast (TOP s) :: SInt32) = unat (TOP s)))"
proof -
  have none: "IOServiceMatching N kIOUSBInterfaceClassName = None \<Longrightarrow>
      lookup_criteria (map snd (calls_made s (mu_usb_find_device N s))) = []"
    by (simp add: mu_usb_find_device_def stack_defs Let_def)
  have some: "IOServiceMatching N kIOUSBInterfaceClassName = Some m0 \<Longrightarrow>
      lookup_criteria (map snd (calls_made s (mu_usb_find_device N s)))
              = [add_number_match
                  (add_number_match
                    (add_number_match
                      (add_number_match m0 kUSBVendorID (ucast (ST1 s)))
                      kUSBProductID (ucast (TOP s)))
                    kUSBInterfaceNumber 0)
                  kUSBConfigurationValue 1]"
    by (simp add: mu_usb_find_device_def stack_defs Let_def split: prod.splits)
  have dict: "map_of
               (add_number_match
                  (add_number_match
                    (add_number_match
                      (add_number_match m0 kUSBVendorID (ucast (ST1 s)))
                      kUSBProductID (ucast (TOP s)))
                    kUSBInterfaceNumber 0)
                  kUSBConfigurationValue 1)
              = (map_of m0)
                  (kUSBVendorID \<mapsto> CFNumber (ucast (ST1 s)),
                   kUSBProductID \<mapsto> CFNumber (ucast (TOP s)),
                   kUSBInterfaceNumber \<mapsto> CFNumber 0,
                   kUSBConfigurationValue \<mapsto> CFNumber 1)"
    by (simp add: add_number_match_def update_conv')
  have fits: "unat x < 2 ^ 32 \<longrightarrow> unat (ucast x :: SInt32) = unat x" for x :: "'a word"
    using unat_ucast_fits [of x, where 'b = 32] by simp
  from none some dict fits [of "ST1 s"] fits [of "TOP s"] show ?thesis
    by blast
qed

text \<open>An instance: the criteria for vendor \<open>0x0483\<close> and product \<open>0x5740\<close>.\<close>

theorem find_device_criteria_witness:
  "IOServiceMatching (test_native 7 0) kIOUSBInterfaceClassName
      = Some [(''IOProviderClass'', CFString ''IOUSBInterface'')]
   \<and> lookup_criteria (map snd (calls_made (machine_with [0x5740, 0x0483])
        (mu_usb_find_device (test_native 7 0) (machine_with [0x5740, 0x0483]))))
      = [[(''IOProviderClass'', CFString ''IOUSBInterface''),
          (''idVendor'', CFNumber 0x0483),
          (''idProduct'', CFNumber 0x5740),
          (''bInterfaceNumber'', CFNumber 0),
          (''bConfigurationValue'', CFNumber 1)]]"
  using find_device_criteria [where N = "test_native 7 0"
      and s = "machine_with [0x5740, 0x0483]"
      and ?m0.0 = "[(''IOProviderClass'', CFString ''IOUSBInterface'')]"]
  by (auto simp add: test_defs TOP_def ST1_def SP_def)

subsection \<open>The plug-in interface\<close>

text \<open>
  C9: in both lookups, once \<open>IOCreatePlugInInterfaceForService\<close> has succeeded with a
  plug-in that is not \<open>NULL\<close>, the calls of the word are fixed up to \<open>Release\<close>: the
  \<open>QueryInterface\<close> on the plug-in is followed at once by the \<open>Release\<close> of the plug-in,
  whatever the query answered, and this is the only \<open>Release\<close> of the plug-in among the
  calls. Only the interface-level word goes on, to open the interface, and only when
  the query succeeded; when the query failed both words abort after the release.
\<close>

theorem plugin_released_once:
  fixes N :: "'a::len word native" and s :: "'a word machine"
  shows "(IOServiceMatching N kIOUSBInterfaceClassName = Some m0
          \<and> IOServiceGetMatchingService N
               (add_number_match
                 (add_number_match
                   (add_number_match
                     (add_number_match m0 kUSBVendorID (ucast (ST1 s)))
                     kUSBProductID (ucast (TOP s)))
                   kUSBInterfaceNumber 0)
                 kUSBConfigurationValue 1) = ioService
          \<and> ioService \<noteq> 0
          \<and> IOCreatePlugInInterfaceForService N ioService
               kIOUSBInterfaceUserClientTypeID kIOCFPlugInInterfaceID
              = (kIOReturnSuccess, pluginInterface)
          \<and> pluginInterface \<noteq> 0
          \<and> QueryInterface N pluginInterface kIOUSBInterfaceInterfaceID190
              = (ior, intfInterface)
          \<longrightarrow>
            map snd (calls_made s (mu_usb_find_device N s))
              = [Call_IOServiceMatching kIOUSBInterfaceClassName,
                 Call_IOServiceGetMatchingService
                   (add_number_match
                     (add_number_match
                       (add_number_match
                         (add_number_match m0 kUSBVendorID (ucast (ST1 s)))
                         kUSBProductID (ucast (TOP s)))
                       kUSBInterfaceNumber 0)
                     kUSBConfigurationValue 1),
                 Call_IOCreatePlugInInterfaceForService ioService
                   kIOUSBInterfaceUserClientTypeID kIOCFPlugInInterfaceID,
                 Call_QueryInterface pluginInterface kIOUSBInterfaceInterfaceID190,
                 Call_Release pluginInterface]
                @ (if ior = kIOReturnSuccess \<and> intfInterface \<noteq> 0
                   then [Call_USBInterfaceOpen intfInterface] else [])
          \<and> count_list (map snd (calls_made s (mu_usb_find_device N s)))
               (Call_Release pluginInterface) = 1
          \<and> (ior \<noteq> kIOReturnSuccess \<or> intfInterface = 0 \<longrightarrow>
               mu_usb_find_device N s
                 = Aborted ''QueryInterface failed'' (machine_of (mu_usb_find_device N s))))
       \<and> (IOServiceMatching N kIOUSBDeviceClassName = Some d0
          \<and> IOServiceGetMatchingService N
               (add_number_match
                 (add_number_match d0 kUSBVendorID (ucast (ST1 s)))
                 kUSBProductID (ucast (TOP s))) = devService
          \<and> devService \<noteq> 0
          \<and> IOCreatePlugInInterfaceForService N devService
               kIOUSBDeviceUserClientTypeID kIOCFPlugInInterfaceID
              = (kIOReturnSuccess, devPlugin)
          \<and> devPlugin \<noteq> 0
          \<and> QueryInterface N devPlugin kIOUSBDeviceInterfaceID = (devIor, deviceInterface)
          \<longrightarrow>
            map snd (calls_made s (mu_usb_find_device_WITH_USB_DEVICE N s))
              = [Call_IOServiceMatching kIOUSBDeviceClassName,
                 Call_IOServiceGetMatchingService
                   (add_number_match
                     (add_number_match d0 kUSBVendorID (ucast (ST1 s)))
                     kUSBProductID (ucast (TOP s))),
                 Call_IOCreatePlugInInterfaceForService devService
                   kIOUSBDeviceUserClientTypeID kIOCFPlugInInterfaceID,
                 Call_QueryInterface devPlugin kIOUSBDeviceInterfaceID,
                 Call_Release devPlugin]
          \<and> count_list (map snd (calls_made s (mu_usb_find_device_WITH_USB_DEVICE N s)))
               (Call_Release devPlugin) = 1
          \<and> (devIor \<noteq> kIOReturnSuccess \<or> deviceInterface = 0 \<longrightarrow>
               mu_usb_find_device_WITH_USB_DEVICE N s
                 = Aborted ''QueryInterface failed''
                     (machine_of (mu_usb_find_device_WITH_USB_DEVICE N s))))"
  by (auto simp add: mu_usb_find_device_def mu_usb_find_device_WITH_USB_DEVICE_def stack_defs
      Let_def)

text \<open>
  An instance: both lookups with a failing query, and the interface-level one with a
  succeeding query.
\<close>

theorem plugin_released_once_witness:
  "map snd (calls_made (machine_with [0x5740, 0x0483])
      (mu_usb_find_device (test_native 7 5) (machine_with [0x5740, 0x0483])))
     = [Call_IOServiceMatching ''IOUSBInterface'',
        Call_IOServiceGetMatchingService
          [(''IOProviderClass'', CFString ''IOUSBInterface''),
           (''idVendor'', CFNumber 0x0483),
           (''idProduct'', CFNumber 0x5740),
           (''bInterfaceNumber'', CFNumber 0),
           (''bConfigurationValue'', CFNumber 1)],
        Call_IOCreatePlugInInterfaceForService 7
          kIOUSBInterfaceUserClientTypeID kIOCFPlugInInterfaceID,
        Call_QueryInterface 4096 kIOUSBInterfaceInterfaceID190,
        Call_Release 4096]
   \<and> mu_usb_find_device (test_native 7 5) (machine_with [0x5740, 0x0483])
       = Aborted ''QueryInterface failed''
          (machine_of (mu_usb_find_device (test_native 7 5) (machine_with [0x5740, 0x0483])))
   \<and> map snd (calls_made (machine_with [0x5740, 0x0483])
      (mu_usb_find_device (test_native 7 0) (machine_with [0x5740, 0x0483])))
     = [Call_IOServiceMatching ''IOUSBInterface'',
        Call_IOServiceGetMatchingService
          [(''IOProviderClass'', CFString ''IOUSBInterface''),
           (''idVendor'', CFNumber 0x0483),
           (''idProduct'', CFNumber 0x5740),
           (''bInterfaceNumber'', CFNumber 0),
           (''bConfigurationValue'', CFNumber 1)],
        Call_IOCreatePlugInInterfaceForService 7
          kIOUSBInterfaceUserClientTypeID kIOCFPlugInInterfaceID,
        Call_QueryInterface 4096 kIOUSBInterfaceInterfaceID190,
        Call_Release 4096,
        Call_USBInterfaceOpen 8192]
   \<and> map snd (calls_made (machine_with [0x5740, 0x0483])
      (mu_usb_find_device_WITH_USB_DEVICE (test_native 7 5) (machine_with [0x5740, 0x0483])))
     = [Call_IOServiceMatching ''IOUSBDevice'',
        Call_IOServiceGetMatchingService
          [(''IOProviderClass'', CFString ''IOUSBDevice''),
           (''idVendor'', CFNumber 0x0483),
           (''idProduct'', CFNumber 0x5740)],
        Call_IOCreatePlugInInterfaceForService 7
          kIOUSBDeviceUserClientTypeID kIOCFPlugInInterfaceID,
        Call_QueryInterface 4096 kIOUSBDeviceInterfaceID,
        Call_Release 4096]
   \<and> mu_usb_find_device_WITH_USB_DEVICE (test_native 7 5) (machine_with [0x5740, 0x0483])
       = Aborted ''QueryInterface failed''
          (machine_of (mu_usb_find_device_WITH_USB_DEVICE (test_native 7 5)
             (machine_with [0x5740, 0x0483])))
   \<and> count_list (map snd (calls_made (machine_with [0x5740, 0x0483])
        (mu_usb_find_device_WITH_USB_DEVICE (test_native 7 5) (machine_with [0x5740, 0x0483]))))
        (Call_Release 4096) = 1"
  using plugin_released_once [where N = "test_native 7 5"
      and s = "machine_with [0x5740, 0x0483]"
      and ?m0.0 = "[(''IOProviderClass'', CFString ''IOUSBInterface'')]"
      and ioService = 7 and pluginInterface = 4096 and ior = 5 and intfInterface = 8192
      and ?d0.0 = "[(''IOProviderClass'', CFString ''IOUSBDevice'')]"
      and devService = 7 and devPlugin = 4096 and devIor = 5 and deviceInterface = 8192]
    plugin_released_once [where N = "test_native 7 0"
      and s = "machine_with [0x5740, 0x0483]"
      and ?m0.0 = "[(''IOProviderClass'', CFString ''IOUSBInterface'')]"
      and ioService = 7 and pluginInterface = 4096 and ior = 0 and intfInterface = 8192
      and ?d0.0 = "[(''IOProviderClass'', CFString ''IOUSBDevice'')]"
      and devService = 7 and devPlugin = 4096 and devIor = 0 and deviceInterface = 8192]
  by (auto simp add: test_defs TOP_def ST1_def SP_def)

subsection \<open>The stack on the error paths\<close>

text \<open>
  C10: \<open>usb-device-request\<close> makes its one native call, \<open>DeviceRequest\<close>, when \<open>SP\<close> is
  already seven cells higher, and ends with \<open>SP\<close> seven cells higher whatever the call
  answers: when the request fails the word aborts with its seven inputs dropped. When
  the native call of \<open>usb-close\<close>, \<open>usb-read\<close> or \<open>usb-write\<close> fails, these words abort
  with \<open>SP\<close> and the stack as they were.
\<close>

theorem device_request_pops_first:
  fixes N :: "'a::len word native" and s :: "'a word machine"
  shows "sp (machine_of (mu_usb_device_request N s)) = sp s + 7
       \<and> stack (machine_of (mu_usb_device_request N s)) = stack s
       \<and> calls_made s (mu_usb_device_request N s)
           = [(sp s + 7, Call_DeviceRequest (TOP s)
                \<lparr> bmRequestType = ucast (SP s 6),
                  bRequest = ucast (SP s 5),
                  wValue = ucast (SP s 4),
                  wIndex = ucast (ST3 s),
                  wLength = ucast (ST2 s),
                  pData = ST1 s \<rparr>)]
       \<and> (DeviceRequest N (TOP s)
                \<lparr> bmRequestType = ucast (SP s 6),
                  bRequest = ucast (SP s 5),
                  wValue = ucast (SP s 4),
                  wIndex = ucast (ST3 s),
                  wLength = ucast (ST2 s),
                  pData = ST1 s \<rparr> \<noteq> kIOReturnSuccess \<longrightarrow>
            mu_usb_device_request N s
              = Aborted ''DeviceRequest failed'' (machine_of (mu_usb_device_request N s)))
       \<and> (USBInterfaceClose N (TOP s) \<noteq> kIOReturnSuccess \<longrightarrow>
            mu_usb_close N s
              = Aborted ''USBInterfaceClose failed'' (machine_of (mu_usb_close N s))
          \<and> sp (machine_of (mu_usb_close N s)) = sp s
          \<and> stack (machine_of (mu_usb_close N s)) = stack s)
       \<and> (fst (ReadPipeTO N (TOP s) (ucast (ST1 s)) (ST3 s) (ucast (ST2 s)) 100 400)
             \<noteq> kIOReturnSuccess \<longrightarrow>
            mu_usb_read N s = Aborted ''ReadPipe failed'' (machine_of (mu_usb_read N s))
          \<and> sp (machine_of (mu_usb_read N s)) = sp s
          \<and> stack (machine_of (mu_usb_read N s)) = stack s)
       \<and> (WritePipeTO N (TOP s) (ucast (ST1 s)) (ST3 s) (ucast (ST2 s)) 100 400
             \<noteq> kIOReturnSuccess \<longrightarrow>
            mu_usb_write N s = Aborted ''WritePipe failed'' (machine_of (mu_usb_write N s))
          \<and> sp (machine_of (mu_usb_write N s)) = sp s
          \<and> stack (machine_of (mu_usb_write N s)) = stack s)"
  by (simp add: mu_usb_device_request_def mu_usb_close_def mu_usb_read_def mu_usb_write_def
      stack_defs Let_def split: prod.splits)

text \<open>
  An instance: a failing device request with the cell 99 below its inputs, and a failing
  close, read and write.
\<close>

theorem device_request_pops_first_witness:
  "mu_usb_device_request (test_native 7 5) (machine_with [8192, 12288, 18, 0, 256, 6, 128, 99])
     = Aborted ''DeviceRequest failed''
         (machine_of (mu_usb_device_request (test_native 7 5)
            (machine_with [8192, 12288, 18, 0, 256, 6, 128, 99])))
   \<and> sp (machine_of (mu_usb_device_request (test_native 7 5)
            (machine_with [8192, 12288, 18, 0, 256, 6, 128, 99]))) = 7
   \<and> TOP (machine_of (mu_usb_device_request (test_native 7 5)
            (machine_with [8192, 12288, 18, 0, 256, 6, 128, 99]))) = 99
   \<and> calls_made (machine_with [8192, 12288, 18, 0, 256, 6, 128, 99])
        (mu_usb_device_request (test_native 7 5)
            (machine_with [8192, 12288, 18, 0, 256, 6, 128, 99]))
       = [(7, Call_DeviceRequest 8192
               \<lparr> bmRequestType = 128, bRequest = 6, wValue = 256, wIndex = 0, wLength = 18,
                 pData = 12288 \<rparr>)]
   \<and> mu_usb_close (test_native 7 5) (machine_with [8192, 129, 64, 12288, 99])
       = Aborted ''USBInterfaceClose failed''
           (machine_of (mu_usb_close (test_native 7 5) (machine_with [8192, 129, 64, 12288, 99])))
   \<and> sp (machine_of (mu_usb_close (test_native 7 5)
            (machine_with [8192, 129, 64, 12288, 99]))) = 0
   \<and> mu_usb_read (test_native 7 5) (machine_with [8192, 129, 64, 12288, 99])
       = Aborted ''ReadPipe failed''
           (machine_of (mu_usb_read (test_native 7 5) (machine_with [8192, 129, 64, 12288, 99])))
   \<and> sp (machine_of (mu_usb_read (test_native 7 5)
            (machine_with [8192, 129, 64, 12288, 99]))) = 0
   \<and> mu_usb_write (test_native 7 5) (machine_with [8192, 129, 64, 12288, 99])
       = Aborted ''WritePipe failed''
           (machine_of (mu_usb_write (test_native 7 5) (machine_with [8192, 129, 64, 12288, 99])))
   \<and> sp (machine_of (mu_usb_write (test_native 7 5)
            (machine_with [8192, 129, 64, 12288, 99]))) = 0"
  using device_request_pops_first [of "test_native 7 5"
          "machine_with [8192, 12288, 18, 0, 256, 6, 128, 99]"]
    device_request_pops_first [of "test_native 7 5" "machine_with [8192, 129, 64, 12288, 99]"]
  by (auto simp add: test_defs TOP_def ST1_def ST2_def ST3_def SP_def)

end
